theory Spec2Isabelle
  imports Complex_Main "HOL-Library.Sublist"
begin

section \<open>Data model of the review dashboard (src/src/App.tsx)\<close>

text \<open>
  The status union of a project record. App.tsx only ever writes \<open>pending\<close>,
  \<open>in-progress\<close> and \<open>completed\<close>; StatusBadge (Badge.tsx) declares the two further
  values \<open>failed\<close> and \<open>cancelled\<close>, so the datatype carries all five.
\<close>

datatype status = Pending | InProgress | Completed | Failed | Cancelled

datatype project_type = Individual | Team | Hackathon | Assignment

text \<open>
  The filter buttons of App.tsx: \<open>"all" | "pending" | "in-progress" | "completed"\<close>.
\<close>

datatype filterStatus = FilterAll | FilterPending | FilterInProgress | FilterCompleted

text \<open>
  The source compares \<open>project.status === filterStatus\<close>, two values of different
  union types, as strings. The two functions below give each value its string literal.
\<close>

fun status_literal :: "status \<Rightarrow> string" where
  "status_literal Pending = ''pending''"
| "status_literal InProgress = ''in-progress''"
| "status_literal Completed = ''completed''"
| "status_literal Failed = ''failed''"
| "status_literal Cancelled = ''cancelled''"

fun filter_literal :: "filterStatus \<Rightarrow> string" where
  "filter_literal FilterAll = ''all''"
| "filter_literal FilterPending = ''pending''"
| "filter_literal FilterInProgress = ''in-progress''"
| "filter_literal FilterCompleted = ''completed''"

text \<open>
  One element of \<open>mockProjects\<close>. The field \<open>id\<close> is named \<open>project_id\<close> and the
  field \<open>type\<close> is named \<open>project_type\<close> here. Identifiers are whole numbers; scores
  are finite numbers, kept as exact rationals.
\<close>

record ProjectRecord =
  project_id :: int
  studentName :: string
  projectTitle :: string
  githubUrl :: string
  technology :: "string list"
  score :: rat
  status :: status
  project_type :: project_type
  feedback :: string
  lastUpdated :: string

text \<open>
  The state of the App component: the module-level array \<open>mockProjects\<close> (mutated in
  place by \<open>handleAnalyzeProject\<close>) and the four \<open>useState\<close> cells.
  \<open>selectedProject\<close> holds a reference to an element of the array, modelled by its
  index. \<open>timers\<close> is the queue of suspended \<open>handleAnalyzeProject\<close> calls waiting for
  their 3000 ms timeout, each with the \<open>projectId\<close> it captured; all delays are equal,
  so they fire in the order they were started.
\<close>

record DashboardState =
  mockProjects :: "ProjectRecord list"
  selectedProject :: "nat option"
  isAnalyzing :: bool
  searchTerm :: string
  filterStatus :: filterStatus
  timers :: "int list"

section \<open>Strings: toLowerCase and includes\<close>

text \<open>
  A string is a list of code units below 256. On that range
  \<open>String.prototype.toLowerCase\<close> maps the letters A to Z and the Latin-1 capitals
  (0xC0 to 0xDE without the multiplication sign 0xD7) to the code unit 32 higher and
  leaves every other code unit alone.
\<close>

definition toLowerChar :: "char \<Rightarrow> char" where
  "toLowerChar c =
     (let n = (of_char c :: nat)
      in if (65 \<le> n \<and> n \<le> 90) \<or> (192 \<le> n \<and> n \<le> 214) \<or> (216 \<le> n \<and> n \<le> 222)
         then char_of (n + 32) else c)"

definition toLowerCase :: "string \<Rightarrow> string" where
  "toLowerCase s = map toLowerChar s"

text \<open>
  \<open>String.prototype.includes\<close>: the search string occurs at some position of the
  receiver, tried from the left. The empty search string occurs in every string.
\<close>

fun string_includes :: "string \<Rightarrow> string \<Rightarrow> bool" where
  "string_includes [] t = (t = [])"
| "string_includes (c # cs) t = (prefix t (c # cs) \<or> string_includes cs t)"

section \<open>Numbers\<close>

text \<open>
  The result of a numeric expression: a finite number (an exact rational; rounding
  error of the double format is outside the model), \<open>NaN\<close>, or an infinity.
\<close>

datatype number = Num rat | NaN | PosInfinity | NegInfinity

text \<open>The operator \<open>/\<close> on two finite numbers: \<open>0/0\<close> is NaN, \<open>x/0\<close> an infinity.\<close>

definition js_divide :: "rat \<Rightarrow> rat \<Rightarrow> number" where
  "js_divide a b =
     (if b \<noteq> 0 then Num (a / b)
      else if a = 0 then NaN
      else if 0 < a then PosInfinity else NegInfinity)"


text \<open>\<open>Math.round\<close>: the nearest integer, ties towards plus infinity.\<close>

fun Math_round :: "number \<Rightarrow> number" where
  "Math_round (Num x) = Num (of_int \<lfloor>x + 1 / 2\<rfloor>)"
| "Math_round NaN = NaN"
| "Math_round PosInfinity = PosInfinity"
| "Math_round NegInfinity = NegInfinity"

section \<open>Derived views of App\<close>

text \<open>Lines 106 to 111: the predicate passed to \<open>mockProjects.filter\<close>.\<close>

definition matchesSearch :: "string \<Rightarrow> ProjectRecord \<Rightarrow> bool" where
  "matchesSearch term project =
     (string_includes (toLowerCase (studentName project)) (toLowerCase term) \<or>
      string_includes (toLowerCase (projectTitle project)) (toLowerCase term))"

definition matchesStatus :: "filterStatus \<Rightarrow> ProjectRecord \<Rightarrow> bool" where
  "matchesStatus f project =
     (filter_literal f = ''all'' \<or> status_literal (status project) = filter_literal f)"

definition filteredProjects :: "DashboardState \<Rightarrow> ProjectRecord list" where
  "filteredProjects s =
     filter (\<lambda>project. matchesSearch (searchTerm s) project \<and> matchesStatus (filterStatus s) project)
       (mockProjects s)"

text \<open>Lines 126 to 132: the \<open>stats\<close> object.\<close>

record Stats =
  total :: nat
  completed :: nat
  inProgress :: nat
  pending :: nat
  averageScore :: number

definition stats :: "DashboardState \<Rightarrow> Stats" where
  "stats s =
     \<lparr> total = length (mockProjects s),
       completed = length (filter (\<lambda>p. status p = Completed) (mockProjects s)),
       inProgress = length (filter (\<lambda>p. status p = InProgress) (mockProjects s)),
       pending = length (filter (\<lambda>p. status p = Pending) (mockProjects s)),
       averageScore =
         Math_round (js_divide (foldl (\<lambda>acc p. acc + score p) 0 (mockProjects s))
                               (of_nat (length (mockProjects s)))) \<rparr>"

section \<open>The analyze transition\<close>

text \<open>
  \<open>Array.prototype.find\<close> yields the first element that satisfies the predicate, or
  \<open>undefined\<close>. The element is an object of the array, so the model yields its index.
\<close>

fun find_first :: "('a \<Rightarrow> bool) \<Rightarrow> 'a list \<Rightarrow> nat option" where
  "find_first P [] = None"
| "find_first P (x # xs) =
     (if P x then Some 0 else map_option Suc (find_first P xs))"

text \<open>
  Lines 113 to 124. The async function runs in two parts: up to the \<open>await\<close>
  (line 114), and the continuation after the timeout (lines 117 to 123).
\<close>

definition handleAnalyzeProject_start :: "DashboardState \<Rightarrow> DashboardState" where
  "handleAnalyzeProject_start s = s\<lparr>isAnalyzing := True\<rparr>"

definition handleAnalyzeProject_resume :: "int \<Rightarrow> DashboardState \<Rightarrow> DashboardState" where
  "handleAnalyzeProject_resume projectId s =
     (let s1 = s\<lparr>isAnalyzing := False\<rparr>
      in case find_first (\<lambda>p. project_id p = projectId) (mockProjects s1) of
           None \<Rightarrow> s1
         | Some i \<Rightarrow>
             s1\<lparr>mockProjects :=
                  (mockProjects s1)[i := (mockProjects s1 ! i)\<lparr>status := Completed\<rparr>]\<rparr>)"

text \<open>The whole call, when nothing else happens during the delay.\<close>

definition handleAnalyzeProject :: "int \<Rightarrow> DashboardState \<Rightarrow> DashboardState" where
  "handleAnalyzeProject projectId s =
     handleAnalyzeProject_resume projectId (handleAnalyzeProject_start s)"

section \<open>Events of the screen\<close>

text \<open>
  Modelled from the spec: the Button component (components/ui/Button.tsx) is imported by
  App.tsx but is not among the sources. The specification makes a second analyze request
  while one is pending a no-op, and App.tsx passes \<open>disabled={isAnalyzing}\<close> to the
  button: a Button whose \<open>disabled\<close> property is true does not call its \<open>onClick\<close>
  handler, and one whose property is false calls it.
\<close>

definition Button_onClick ::
  "bool \<Rightarrow> (DashboardState \<Rightarrow> DashboardState) \<Rightarrow> DashboardState \<Rightarrow> DashboardState" where
  "Button_onClick disabled onClick s = (if disabled then s else onClick s)"

text \<open>
  Lines 251 to 259: a card of \<open>filteredProjects\<close> shows the Analyze button when the
  project's status is \<open>pending\<close>; its \<open>onClick\<close> calls \<open>handleAnalyzeProject\<close> with
  the project's id and its \<open>disabled\<close> property is \<open>isAnalyzing\<close>.
\<close>

definition analyzeButtonShown :: "int \<Rightarrow> DashboardState \<Rightarrow> bool" where
  "analyzeButtonShown projectId s =
     list_ex (\<lambda>p. project_id p = projectId \<and> status p = Pending) (filteredProjects s)"

text \<open>
  The events of the screen: typing in the search box, the four filter buttons, View
  Details on the card of a project (given by its index), closing the modal, the Analyze
  button of a project (given by its id), and the expiry of the oldest pending timeout.
\<close>

datatype event =
    ChangeSearch string
  | ClickFilter filterStatus
  | ClickViewDetails nat
  | CloseModal
  | ClickAnalyze int
  | TimeoutFires

fun step :: "event \<Rightarrow> DashboardState \<Rightarrow> DashboardState" where
  "step (ChangeSearch v) s = s\<lparr>searchTerm := v\<rparr>"
| "step (ClickFilter f) s = s\<lparr>filterStatus := f\<rparr>"
| "step (ClickViewDetails i) s =
     (if i < length (mockProjects s) \<and> mockProjects s ! i \<in> set (filteredProjects s)
      then s\<lparr>selectedProject := Some i\<rparr> else s)"
| "step CloseModal s = s\<lparr>selectedProject := None\<rparr>"
| "step (ClickAnalyze projectId) s =
     (if analyzeButtonShown projectId s
      then Button_onClick (isAnalyzing s)
             (\<lambda>s'. (handleAnalyzeProject_start s')\<lparr>timers := timers s' @ [projectId]\<rparr>) s
      else s)"
| "step TimeoutFires s =
     (case timers s of
        [] \<Rightarrow> s
      | projectId # rest \<Rightarrow> (handleAnalyzeProject_resume projectId s)\<lparr>timers := rest\<rparr>)"

fun run :: "event list \<Rightarrow> DashboardState \<Rightarrow> DashboardState" where
  "run [] s = s"
| "run (e # es) s = run es (step e s)"

section \<open>ScoreBadge (Badge.tsx)\<close>


section \<open>The mock data of App.tsx\<close>

text \<open>Lines 25 to 98, and the initial values of the four state cells.\<close>

definition initial_mockProjects :: "ProjectRecord list" where
  "initial_mockProjects =
     [ \<lparr> project_id = 1,
         studentName = ''Geoffrey Wachira Gichuki'',
         projectTitle = ''AI Poster Maker Backend'',
         githubUrl = ''https://github.com/geoffeycloud/poster-maker-backend'',
         technology = [''FastAPI'', ''Python'', ''AI''],
         score = 99, status = Completed, project_type = Individual,
         feedback = ''Outstanding enterprise-grade AI poster generation backend with FastAPI and Google Cloud Vertex AI...'',
         lastUpdated = ''2 hours ago'' \<rparr>,
       \<lparr> project_id = 2,
         studentName = ''Omollo Victor'',
         projectTitle = ''STAFF_PULSE'',
         githubUrl = ''https://github.com/SK3CHI3/STAFF_PULSE.git'',
         technology = [''React'', ''Next.js'', ''TypeScript''],
         score = 98, status = Completed, project_type = Individual,
         feedback = ''Outstanding enterprise-grade employee wellness platform with WhatsApp integration...'',
         lastUpdated = ''3 hours ago'' \<rparr>,
       \<lparr> project_id = 3,
         studentName = ''James Muganzi Imoli'',
         projectTitle = ''Ajirawise Job Alert Bot'',
         githubUrl = ''https://github.com/MuganziJames/-whatsapp-job-alert-bot-kenya.git'',
         technology = [''Python'', ''Flask'', ''WhatsApp Bot''],
         score = 97, status = Completed, project_type = Team,
         feedback = ''OUTSTANDING professional-grade dual-platform job alert system for Kenyan youth...'',
         lastUpdated = ''4 hours ago'' \<rparr>,
       \<lparr> project_id = 4,
         studentName = ''Linus Kipkemoi Langat'',
         projectTitle = ''RecycloHub AI Waste Management'',
         githubUrl = ''https://github.com/Joy-kitet/Hackathon-2.0'',
         technology = [''React'', ''FastAPI'', ''AI''],
         score = 96, status = InProgress, project_type = Team,
         feedback = ''OUTSTANDING enterprise-grade AI waste management platform...'',
         lastUpdated = ''1 hour ago'' \<rparr>,
       \<lparr> project_id = 5,
         studentName = ''Patricia Nduku Mugisia'',
         projectTitle = ''Haki-kenya Legal Aid Platform'',
         githubUrl = ''https://github.com/Patricianduku/Haki-kenya.git'',
         technology = [''React'', ''TypeScript'', ''Supabase''],
         score = 95, status = Completed, project_type = Individual,
         feedback = ''Exceptional React legal aid platform with Supabase backend...'',
         lastUpdated = ''5 hours ago'' \<rparr>,
       \<lparr> project_id = 6,
         studentName = ''Magdaline Mutave'',
         projectTitle = ''Poster & Flier Maker'',
         githubUrl = ''https://github.com/DOMOSH85/poster-flier-maker.git'',
         technology = [''React'', ''Node.js'', ''MongoDB''],
         score = 93, status = Pending, project_type = Team,
         feedback = ''EXCEPTIONAL commercial-grade full-stack design platform...'',
         lastUpdated = ''30 minutes ago'' \<rparr> ]"

definition initialState :: DashboardState where
  "initialState =
     \<lparr> mockProjects = initial_mockProjects, selectedProject = None, isAnalyzing = False,
       searchTerm = [], filterStatus = FilterAll, timers = [] \<rparr>"

text \<open>The same screen over another project list.\<close>

definition stateOver :: "ProjectRecord list \<Rightarrow> DashboardState" where
  "stateOver ps = initialState\<lparr>mockProjects := ps\<rparr>"

section \<open>The specification's reading of the filter\<close>





section \<open>Facts about the string functions\<close>

lemma includes_sublist: "string_includes s t \<longleftrightarrow> sublist t s"
  by (induction s) (auto simp: sublist_Cons_right)

lemma includes_empty: "string_includes s []"
  by (simp add: includes_sublist)






section \<open>Facts about the filter predicates\<close>

lemma matchesStatus_all: "matchesStatus FilterAll r"
  by (simp add: matchesStatus_def)

lemma matchesStatus_completed: "matchesStatus FilterCompleted r \<longleftrightarrow> status r = Completed"
  by (cases "status r") (simp_all add: matchesStatus_def)


lemma matchesSearch_empty: "matchesSearch [] r"
  by (simp add: matchesSearch_def toLowerCase_def includes_empty)


section \<open>Facts about folds and find\<close>



lemma find_first_None: "find_first P xs = None \<longleftrightarrow> (\<forall>x\<in>set xs. \<not> P x)"
  by (induction xs) auto

lemma find_first_Some:
  "find_first P xs = Some i \<Longrightarrow> i < length xs \<and> P (xs ! i) \<and> (\<forall>j<i. \<not> P (xs ! j))"
proof (induction xs arbitrary: i)
  case Nil
  then show ?case by simp
next
  case (Cons x xs)
  show ?case
  proof (cases "P x")
    case True
    with Cons.prems show ?thesis by simp
  next
    case False
    with Cons.prems obtain k where k: "find_first P xs = Some k" and i: "i = Suc k"
      by auto
    from Cons.IH [OF k] False i show ?thesis
      by (auto simp: less_Suc_eq_0_disj)
  qed
qed


section \<open>The filter\<close>


text \<open>
  C9. With the status filter \<open>all\<close> and the empty search term, \<open>filteredProjects\<close>
  is the whole project list, unchanged and in order.
\<close>

theorem filteredProjects_identity:
  "filteredProjects (s\<lparr>searchTerm := [], filterStatus := FilterAll\<rparr>) = mockProjects s"
  by (simp add: filteredProjects_def matchesSearch_empty matchesStatus_all)

text \<open>
  C6. With the status filter \<open>completed\<close>, every record of the result has status
  \<open>completed\<close>, and no record of the list whose status is \<open>failed\<close>, \<open>cancelled\<close>,
  \<open>pending\<close> or \<open>in-progress\<close> is in the result.
\<close>

theorem filteredProjects_completed_only:
  "filterStatus s = FilterCompleted \<Longrightarrow>
     (\<forall>r \<in> set (filteredProjects s). status r = Completed) \<and>
     (\<forall>r \<in> set (mockProjects s).
        status r \<in> {Failed, Cancelled, Pending, InProgress} \<longrightarrow> r \<notin> set (filteredProjects s))"
  by (auto simp: filteredProjects_def matchesStatus_completed)

theorem filteredProjects_completed_only_witness:
  "filterStatus (initialState\<lparr>filterStatus := FilterCompleted\<rparr>) = FilterCompleted \<and>
   list_all (\<lambda>r. status r = Completed)
     (filteredProjects (initialState\<lparr>filterStatus := FilterCompleted\<rparr>)) \<and>
   initial_mockProjects ! 5 \<notin> set (filteredProjects (initialState\<lparr>filterStatus := FilterCompleted\<rparr>))"
proof -
  let ?s = "initialState\<lparr>filterStatus := FilterCompleted\<rparr>"
  have h: "filterStatus ?s = FilterCompleted"
    by simp
  have m: "initial_mockProjects ! 5 \<in> set (mockProjects ?s)"
    by (simp add: initialState_def initial_mockProjects_def)
  have p: "status (initial_mockProjects ! 5) \<in> {Failed, Cancelled, Pending, InProgress}"
    by (simp add: initial_mockProjects_def)
  from filteredProjects_completed_only [OF h] h m p show ?thesis
    unfolding list_all_iff by blast
qed



section \<open>The statistics\<close>

text \<open>
  C3, as the specification states it, fails on the empty list: the source divides the
  sum 0 by the length 0 without a guard, and \<open>Math.round\<close> of the resulting NaN is NaN,
  not 0.
\<close>

theorem stats_empty_counterexample:
  "averageScore (stats (stateOver [])) = NaN \<and> averageScore (stats (stateOver [])) \<noteq> Num 0"
  by (simp add: stats_def stateOver_def js_divide_def)

text \<open>
  C3, amended. For every project list \<open>total\<close> is the length of the list; for the empty
  list \<open>stats\<close> raises no error and its \<open>averageScore\<close> is NaN.
\<close>

theorem stats_total_and_empty_average:
  "total (stats s) = length (mockProjects s) \<and>
   (mockProjects s = [] \<longrightarrow> averageScore (stats s) = NaN)"
  by (simp add: stats_def js_divide_def)

theorem stats_total_and_empty_average_witness:
  "mockProjects (stateOver []) = [] \<and> total (stats (stateOver [])) = 0 \<and>
   averageScore (stats (stateOver [])) = NaN"
  using stats_total_and_empty_average [of "stateOver []"]
  by (simp add: stateOver_def)



section \<open>The analyze transition and its frame\<close>

text \<open>
  \<open>handleAnalyzeProject\<close> itself does not read \<open>isAnalyzing\<close>: called directly in a
  state where an analysis is pending, it still completes the project it is given. The
  mutual exclusion lives in the \<open>disabled\<close> property of the Analyze button, which is
  the handler's only caller.
\<close>

lemma handleAnalyzeProject_reads_no_flag:
  "status (mockProjects (handleAnalyzeProject 4 (initialState\<lparr>isAnalyzing := True\<rparr>)) ! 3)
     = Completed \<and>
   status (mockProjects (initialState\<lparr>isAnalyzing := True\<rparr>) ! 3) = InProgress"
  by code_simp

text \<open>
  C2. In every state where \<open>isAnalyzing\<close> is true and for every project id, a click on
  the Analyze button of that project changes nothing: the button is disabled, the handler
  is not called, and whatever events follow, the final state is the one reached without
  the click, that is, by the analysis already pending alone.
\<close>

theorem analyze_click_while_in_flight_noop:
  "isAnalyzing s \<Longrightarrow>
     step (ClickAnalyze projectId) s = s \<and>
     run (ClickAnalyze projectId # es) s = run es s"
  by (simp add: Button_onClick_def)

theorem analyze_click_while_in_flight_noop_witness:
  "isAnalyzing (step (ClickAnalyze 6) initialState) \<and>
   run [ClickAnalyze 6, TimeoutFires] (step (ClickAnalyze 6) initialState)
     = run [TimeoutFires] (step (ClickAnalyze 6) initialState)"
proof -
  have h: "isAnalyzing (step (ClickAnalyze 6) initialState)"
    by code_simp
  from analyze_click_while_in_flight_noop [OF h, of 6 "[TimeoutFires]"] h
  show ?thesis by blast
qed

text \<open>
  C4. When the project list holds a record with the given id, then after
  \<open>handleAnalyzeProject\<close> has run to completion the first record with that id (the one
  \<open>find\<close> returns) has status \<open>completed\<close> and is otherwise the record it was, every
  other record of the list is unchanged, the list has the same length, and
  \<open>isAnalyzing\<close> is false.
\<close>

theorem analyze_completes_only_first_match:
  assumes "\<exists>p \<in> set (mockProjects s). project_id p = projectId"
  shows "\<exists>i < length (mockProjects s).
           project_id (mockProjects s ! i) = projectId \<and>
           (\<forall>j < i. project_id (mockProjects s ! j) \<noteq> projectId) \<and>
           mockProjects (handleAnalyzeProject projectId s)
             = (mockProjects s)[i := (mockProjects s ! i)\<lparr>status := Completed\<rparr>] \<and>
           length (mockProjects (handleAnalyzeProject projectId s)) = length (mockProjects s) \<and>
           mockProjects (handleAnalyzeProject projectId s) ! i
             = (mockProjects s ! i)\<lparr>status := Completed\<rparr> \<and>
           status (mockProjects (handleAnalyzeProject projectId s) ! i) = Completed \<and>
           project_id (mockProjects (handleAnalyzeProject projectId s) ! i) = projectId \<and>
           (\<forall>j < length (mockProjects s). j \<noteq> i \<longrightarrow>
              mockProjects (handleAnalyzeProject projectId s) ! j = mockProjects s ! j) \<and>
           isAnalyzing (handleAnalyzeProject projectId s) = False"
proof -
  let ?P = "\<lambda>p. project_id p = projectId"
  from assms have "find_first ?P (mockProjects s) \<noteq> None"
    by (simp add: find_first_None)
  then obtain i where i: "find_first ?P (mockProjects s) = Some i"
    by blast
  from find_first_Some [OF i]
  have b: "i < length (mockProjects s)" and m: "project_id (mockProjects s ! i) = projectId"
    and f: "\<forall>j < i. project_id (mockProjects s ! j) \<noteq> projectId"
    by simp_all
  have ps: "mockProjects (handleAnalyzeProject projectId s)
              = (mockProjects s)[i := (mockProjects s ! i)\<lparr>status := Completed\<rparr>]"
    using i
    by (simp add: handleAnalyzeProject_def handleAnalyzeProject_resume_def
        handleAnalyzeProject_start_def)
  have fl: "isAnalyzing (handleAnalyzeProject projectId s) = False"
    using i
    by (simp add: handleAnalyzeProject_def handleAnalyzeProject_resume_def
        handleAnalyzeProject_start_def)
  from b m f fl show ?thesis
    unfolding ps by (intro exI [of _ i]) simp
qed

theorem analyze_completes_only_first_match_witness:
  "(\<exists>p \<in> set (mockProjects initialState). project_id p = 6) \<and>
   mockProjects (handleAnalyzeProject 6 initialState)
     = (mockProjects initialState)[5 := (mockProjects initialState ! 5)\<lparr>status := Completed\<rparr>] \<and>
   status (mockProjects (handleAnalyzeProject 6 initialState) ! 5) = Completed \<and>
   isAnalyzing (handleAnalyzeProject 6 initialState) = False"
proof -
  have h: "\<exists>p \<in> set (mockProjects initialState). project_id p = 6"
    by (simp add: initialState_def initial_mockProjects_def)
  have l: "length (mockProjects initialState) = 6"
    by (simp add: initialState_def initial_mockProjects_def)
  from analyze_completes_only_first_match [OF h]
  obtain i where i: "i < length (mockProjects initialState)"
    and eq: "project_id (mockProjects initialState ! i) = 6"
    and ps: "mockProjects (handleAnalyzeProject 6 initialState)
             = (mockProjects initialState)[i := (mockProjects initialState ! i)\<lparr>status := Completed\<rparr>]"
    and st: "status (mockProjects (handleAnalyzeProject 6 initialState) ! i) = Completed"
    and fl: "isAnalyzing (handleAnalyzeProject 6 initialState) = False"
    by blast
  from i l have "i < 6"
    by simp
  then consider "i = 0" | "i = 1" | "i = 2" | "i = 3" | "i = 4" | "i = 5"
    by linarith
  then have "i = 5"
    using eq by cases (simp_all add: initialState_def initial_mockProjects_def)
  with h ps st fl show ?thesis by simp
qed

text \<open>
  C8. When no record of the list has the given id, \<open>handleAnalyzeProject\<close> sets
  \<open>isAnalyzing\<close> to true before the delay and to false after it, and changes no record:
  the state after the call is the state before it with \<open>isAnalyzing\<close> false.
\<close>

theorem analyze_unknown_id_changes_no_record:
  assumes "\<forall>p \<in> set (mockProjects s). project_id p \<noteq> projectId"
  shows "isAnalyzing (handleAnalyzeProject_start s) = True \<and>
         mockProjects (handleAnalyzeProject_start s) = mockProjects s \<and>
         isAnalyzing (handleAnalyzeProject projectId s) = False \<and>
         mockProjects (handleAnalyzeProject projectId s) = mockProjects s \<and>
         handleAnalyzeProject projectId s = s\<lparr>isAnalyzing := False\<rparr>"
proof -
  from assms have "find_first (\<lambda>p. project_id p = projectId) (mockProjects s) = None"
    by (simp add: find_first_None)
  then show ?thesis
    by (simp add: handleAnalyzeProject_def handleAnalyzeProject_resume_def
        handleAnalyzeProject_start_def)
qed

theorem analyze_unknown_id_changes_no_record_witness:
  "7 \<notin> set (map project_id (mockProjects initialState)) \<and>
   isAnalyzing (handleAnalyzeProject_start initialState) \<and>
   handleAnalyzeProject 7 initialState = initialState"
proof -
  have h: "\<forall>p \<in> set (mockProjects initialState). project_id p \<noteq> 7"
    by (simp add: initialState_def initial_mockProjects_def)
  have e: "initialState\<lparr>isAnalyzing := False\<rparr> = initialState"
    by (simp add: initialState_def)
  from h have n: "7 \<notin> set (map project_id (mockProjects initialState))"
    by auto
  from analyze_unknown_id_changes_no_record [OF h] n e show ?thesis
    by simp
qed

section \<open>The score badge\<close>



end
